theory Spec2Isabelle
  imports Main
begin

section \<open>JavaScript values\<close>

text \<open>
  The file \<^verbatim>\<open>doc/implementors/core/str/traits/trait.FromStr.js\<close> is one immediately
  invoked function: it builds an object \<^verbatim>\<open>implementors\<close> by 41 property assignments
  and then either calls \<^verbatim>\<open>window.register_implementors\<close> with it or stores it in
  \<^verbatim>\<open>window.pending_implementors\<close>.

  Values are the JavaScript values the two global slots may hold. A function object is
  named by an identifier; what it does when called belongs to the host page and is a
  parameter of the model. Numbers are kept as integers plus \<open>NaN\<close>: the program
  only ever tests a number for truthiness.
\<close>

datatype jsval =
    JUndefined
  | JNull
  | JBool bool
  | JNum int
  | JNaN
  | JStr string
  | JFun nat
  | JArr "jsval list"
  | JObj "(string \<times> jsval) list"

text \<open>\<^verbatim>\<open>ToBoolean\<close>, the test an \<^verbatim>\<open>if\<close> statement applies to its condition.\<close>

fun truthy :: "jsval \<Rightarrow> bool" where
  "truthy JUndefined = False"
| "truthy JNull = False"
| "truthy (JBool b) = b"
| "truthy (JNum n) = (n \<noteq> 0)"
| "truthy JNaN = False"
| "truthy (JStr s) = (s \<noteq> [])"
| "truthy (JFun f) = True"
| "truthy (JArr xs) = True"
| "truthy (JObj ps) = True"

text \<open>
  Own properties of an ordinary object, in insertion order. Assigning to a key that the
  object already has replaces the value in place; a new key is appended. Reading a key
  that is absent gives \<^verbatim>\<open>undefined\<close>.
\<close>

fun set_property :: "(string \<times> jsval) list \<Rightarrow> string \<Rightarrow> jsval \<Rightarrow> (string \<times> jsval) list" where
  "set_property [] k v = [(k, v)]"
| "set_property ((k', v') # ps) k v =
     (if k' = k then (k, v) # ps else (k', v') # set_property ps k v)"

fun get_property :: "(string \<times> jsval) list \<Rightarrow> string \<Rightarrow> jsval" where
  "get_property [] k = JUndefined"
| "get_property ((k', v') # ps) k = (if k' = k then v' else get_property ps k)"

fun properties :: "jsval \<Rightarrow> (string \<times> jsval) list" where
  "properties (JObj ps) = ps"
| "properties v = []"

fun elements :: "jsval \<Rightarrow> jsval list" where
  "elements (JArr xs) = xs"
| "elements v = []"

section \<open>The registry literal\<close>

text \<open>
  Lines 2 to 42 of the source, one constant for the array literal on the right-hand side
  of each assignment. Each record is an object literal with the properties
  \<^verbatim>\<open>text\<close>, \<^verbatim>\<open>synthetic\<close> and \<^verbatim>\<open>types\<close>, in that order.
\<close>

text \<open>Line 2: \<^verbatim>\<open>implementors["arrayvec"] = [...]\<close> (1 record).\<close>

definition implementors_arrayvec :: jsval where
  "implementors_arrayvec = JArr
    [JObj [(''text'', JStr ''impl&lt;A&gt; <a class=\"trait\" href=\"https://doc.rust-lang.org/1.58.0/core/str/traits/trait.FromStr.html\" title=\"trait core::str::traits::FromStr\">FromStr</a> for <a class=\"struct\" href=\"arrayvec/struct.ArrayString.html\" title=\"struct arrayvec::ArrayString\">ArrayString</a>&lt;A&gt; <span class=\"where fmt-newline\">where<br>&nbsp;&nbsp;&nbsp;&nbsp;A: <a class=\"trait\" href=\"arrayvec/trait.Array.html\" title=\"trait arrayvec::Array\">Array</a>&lt;Item = <a class=\"primitive\" href=\"https://doc.rust-lang.org/1.58.0/core/primitive.u8.html\">u8</a>&gt; + <a class=\"trait\" href=\"https://doc.rust-lang.org/1.58.0/core/marker/trait.Copy.html\" title=\"trait core::marker::Copy\">Copy</a>,&nbsp;</span>''),
           (''synthetic'', JBool False),
           (''types'', JArr [JStr ''arrayvec::array_string::ArrayString''])]]"

text \<open>Line 3: \<^verbatim>\<open>implementors["ascii"] = [...]\<close> (1 record).\<close>

definition implementors_ascii :: jsval where
  "implementors_ascii = JArr
    [JObj [(''text'', JStr ''impl <a class=\"trait\" href=\"https://doc.rust-lang.org/1.58.0/core/str/traits/trait.FromStr.html\" title=\"trait core::str::traits::FromStr\">FromStr</a> for <a class=\"struct\" href=\"ascii/struct.AsciiString.html\" title=\"struct ascii::AsciiString\">AsciiString</a>''),
           (''synthetic'', JBool False),
           (''types'', JArr [JStr ''ascii::ascii_string::AsciiString''])]]"

text \<open>Line 4: \<^verbatim>\<open>implementors["async_std"] = [...]\<close> (1 record).\<close>

definition implementors_async_std :: jsval where
  "implementors_async_std = JArr
    [JObj [(''text'', JStr ''impl <a class=\"trait\" href=\"https://doc.rust-lang.org/1.58.0/core/str/traits/trait.FromStr.html\" title=\"trait core::str::traits::FromStr\">FromStr</a> for <a class=\"struct\" href=\"async_std/path/struct.PathBuf.html\" title=\"struct async_std::path::PathBuf\">PathBuf</a>''),
           (''synthetic'', JBool False),
           (''types'', JArr [JStr ''async_std::path::pathbuf::PathBuf''])]]"

text \<open>Line 5: \<^verbatim>\<open>implementors["bigdecimal"] = [...]\<close> (1 record).\<close>

definition implementors_bigdecimal :: jsval where
  "implementors_bigdecimal = JArr
    [JObj [(''text'', JStr ''impl <a class=\"trait\" href=\"https://doc.rust-lang.org/1.58.0/core/str/traits/trait.FromStr.html\" title=\"trait core::str::traits::FromStr\">FromStr</a> for <a class=\"struct\" href=\"bigdecimal/struct.BigDecimal.html\" title=\"struct bigdecimal::BigDecimal\">BigDecimal</a>''),
           (''synthetic'', JBool False),
           (''types'', JArr [JStr ''bigdecimal::BigDecimal''])]]"

text \<open>Line 6: \<^verbatim>\<open>implementors["bson"] = [...]\<close> (1 record).\<close>

definition implementors_bson :: jsval where
  "implementors_bson = JArr
    [JObj [(''text'', JStr ''impl <a class=\"trait\" href=\"https://doc.rust-lang.org/1.58.0/core/str/traits/trait.FromStr.html\" title=\"trait core::str::traits::FromStr\">FromStr</a> for <a class=\"struct\" href=\"bson/oid/struct.ObjectId.html\" title=\"struct bson::oid::ObjectId\">ObjectId</a>''),
           (''synthetic'', JBool False),
           (''types'', JArr [JStr ''bson::oid::ObjectId''])]]"

text \<open>Line 7: \<^verbatim>\<open>implementors["chrono"] = [...]\<close> (8 records).\<close>

definition implementors_chrono :: jsval where
  "implementors_chrono = JArr
    [JObj [(''text'', JStr ''impl <a class=\"trait\" href=\"https://doc.rust-lang.org/1.58.0/core/str/traits/trait.FromStr.html\" title=\"trait core::str::traits::FromStr\">FromStr</a> for <a class=\"struct\" href=\"chrono/naive/struct.NaiveDate.html\" title=\"struct chrono::naive::NaiveDate\">NaiveDate</a>''),
           (''synthetic'', JBool False),
           (''types'', JArr [JStr ''chrono::naive::date::NaiveDate''])],
     JObj [(''text'', JStr ''impl <a class=\"trait\" href=\"https://doc.rust-lang.org/1.58.0/core/str/traits/trait.FromStr.html\" title=\"trait core::str::traits::FromStr\">FromStr</a> for <a class=\"struct\" href=\"chrono/naive/struct.NaiveDateTime.html\" title=\"struct chrono::naive::NaiveDateTime\">NaiveDateTime</a>''),
           (''synthetic'', JBool False),
           (''types'', JArr [JStr ''chrono::naive::datetime::NaiveDateTime''])],
     JObj [(''text'', JStr ''impl <a class=\"trait\" href=\"https://doc.rust-lang.org/1.58.0/core/str/traits/trait.FromStr.html\" title=\"trait core::str::traits::FromStr\">FromStr</a> for <a class=\"struct\" href=\"chrono/naive/struct.NaiveTime.html\" title=\"struct chrono::naive::NaiveTime\">NaiveTime</a>''),
           (''synthetic'', JBool False),
           (''types'', JArr [JStr ''chrono::naive::time::NaiveTime''])],
     JObj [(''text'', JStr ''impl <a class=\"trait\" href=\"https://doc.rust-lang.org/1.58.0/core/str/traits/trait.FromStr.html\" title=\"trait core::str::traits::FromStr\">FromStr</a> for <a class=\"struct\" href=\"chrono/struct.DateTime.html\" title=\"struct chrono::DateTime\">DateTime</a>&lt;<a class=\"struct\" href=\"chrono/offset/struct.Utc.html\" title=\"struct chrono::offset::Utc\">Utc</a>&gt;''),
           (''synthetic'', JBool False),
           (''types'', JArr [JStr ''chrono::datetime::DateTime''])],
     JObj [(''text'', JStr ''impl <a class=\"trait\" href=\"https://doc.rust-lang.org/1.58.0/core/str/traits/trait.FromStr.html\" title=\"trait core::str::traits::FromStr\">FromStr</a> for <a class=\"struct\" href=\"chrono/struct.DateTime.html\" title=\"struct chrono::DateTime\">DateTime</a>&lt;<a class=\"struct\" href=\"chrono/offset/struct.Local.html\" title=\"struct chrono::offset::Local\">Local</a>&gt;''),
           (''synthetic'', JBool False),
           (''types'', JArr [JStr ''chrono::datetime::DateTime''])],
     JObj [(''text'', JStr ''impl <a class=\"trait\" href=\"https://doc.rust-lang.org/1.58.0/core/str/traits/trait.FromStr.html\" title=\"trait core::str::traits::FromStr\">FromStr</a> for <a class=\"struct\" href=\"chrono/struct.DateTime.html\" title=\"struct chrono::DateTime\">DateTime</a>&lt;<a class=\"struct\" href=\"chrono/offset/struct.FixedOffset.html\" title=\"struct chrono::offset::FixedOffset\">FixedOffset</a>&gt;''),
           (''synthetic'', JBool False),
           (''types'', JArr [JStr ''chrono::datetime::DateTime''])],
     JObj [(''text'', JStr ''impl <a class=\"trait\" href=\"https://doc.rust-lang.org/1.58.0/core/str/traits/trait.FromStr.html\" title=\"trait core::str::traits::FromStr\">FromStr</a> for <a class=\"enum\" href=\"chrono/enum.Weekday.html\" title=\"enum chrono::Weekday\">Weekday</a>''),
           (''synthetic'', JBool False),
           (''types'', JArr [JStr ''chrono::Weekday''])],
     JObj [(''text'', JStr ''impl <a class=\"trait\" href=\"https://doc.rust-lang.org/1.58.0/core/str/traits/trait.FromStr.html\" title=\"trait core::str::traits::FromStr\">FromStr</a> for <a class=\"enum\" href=\"chrono/enum.Month.html\" title=\"enum chrono::Month\">Month</a>''),
           (''synthetic'', JBool False),
           (''types'', JArr [JStr ''chrono::Month''])]]"

text \<open>Line 8: \<^verbatim>\<open>implementors["clap"] = [...]\<close> (3 records).\<close>

definition implementors_clap :: jsval where
  "implementors_clap = JArr
    [JObj [(''text'', JStr ''impl <a class=\"trait\" href=\"https://doc.rust-lang.org/1.58.0/core/str/traits/trait.FromStr.html\" title=\"trait core::str::traits::FromStr\">FromStr</a> for <a class=\"enum\" href=\"clap/enum.AppSettings.html\" title=\"enum clap::AppSettings\">AppSettings</a>''),
           (''synthetic'', JBool False),
           (''types'', JArr [JStr ''clap::app::settings::AppSettings''])],
     JObj [(''text'', JStr ''impl <a class=\"trait\" href=\"https://doc.rust-lang.org/1.58.0/core/str/traits/trait.FromStr.html\" title=\"trait core::str::traits::FromStr\">FromStr</a> for <a class=\"enum\" href=\"clap/enum.ArgSettings.html\" title=\"enum clap::ArgSettings\">ArgSettings</a>''),
           (''synthetic'', JBool False),
           (''types'', JArr [JStr ''clap::args::settings::ArgSettings''])],
     JObj [(''text'', JStr ''impl <a class=\"trait\" href=\"https://doc.rust-lang.org/1.58.0/core/str/traits/trait.FromStr.html\" title=\"trait core::str::traits::FromStr\">FromStr</a> for <a class=\"enum\" href=\"clap/enum.Shell.html\" title=\"enum clap::Shell\">Shell</a>''),
           (''synthetic'', JBool False),
           (''types'', JArr [JStr ''clap::completions::shell::Shell''])]]"

text \<open>Line 9: \<^verbatim>\<open>implementors["colored"] = [...]\<close> (1 record).\<close>

definition implementors_colored :: jsval where
  "implementors_colored = JArr
    [JObj [(''text'', JStr ''impl <a class=\"trait\" href=\"https://doc.rust-lang.org/1.58.0/core/str/traits/trait.FromStr.html\" title=\"trait core::str::traits::FromStr\">FromStr</a> for <a class=\"enum\" href=\"colored/enum.Color.html\" title=\"enum colored::Color\">Color</a>''),
           (''synthetic'', JBool False),
           (''types'', JArr [JStr ''colored::color::Color''])]]"

text \<open>Line 10: \<^verbatim>\<open>implementors["connection_string"] = [...]\<close> (2 records).\<close>

definition implementors_connection_string :: jsval where
  "implementors_connection_string = JArr
    [JObj [(''text'', JStr ''impl <a class=\"trait\" href=\"https://doc.rust-lang.org/1.58.0/core/str/traits/trait.FromStr.html\" title=\"trait core::str::traits::FromStr\">FromStr</a> for <a class=\"struct\" href=\"connection_string/struct.AdoNetString.html\" title=\"struct connection_string::AdoNetString\">AdoNetString</a>''),
           (''synthetic'', JBool False),
           (''types'', JArr [JStr ''connection_string::ado::AdoNetString''])],
     JObj [(''text'', JStr ''impl <a class=\"trait\" href=\"https://doc.rust-lang.org/1.58.0/core/str/traits/trait.FromStr.html\" title=\"trait core::str::traits::FromStr\">FromStr</a> for <a class=\"struct\" href=\"connection_string/struct.JdbcString.html\" title=\"struct connection_string::JdbcString\">JdbcString</a>''),
           (''synthetic'', JBool False),
           (''types'', JArr [JStr ''connection_string::jdbc::JdbcString''])]]"

text \<open>Line 11: \<^verbatim>\<open>implementors["cookie"] = [...]\<close> (1 record).\<close>

definition implementors_cookie :: jsval where
  "implementors_cookie = JArr
    [JObj [(''text'', JStr ''impl <a class=\"trait\" href=\"https://doc.rust-lang.org/1.58.0/core/str/traits/trait.FromStr.html\" title=\"trait core::str::traits::FromStr\">FromStr</a> for <a class=\"struct\" href=\"cookie/struct.Cookie.html\" title=\"struct cookie::Cookie\">Cookie</a>&lt;'static&gt;''),
           (''synthetic'', JBool False),
           (''types'', JArr [JStr ''cookie::Cookie''])]]"

text \<open>Line 12: \<^verbatim>\<open>implementors["datamodel_connector"] = [...]\<close> (1 record).\<close>

definition implementors_datamodel_connector :: jsval where
  "implementors_datamodel_connector = JArr
    [JObj [(''text'', JStr ''impl <a class=\"trait\" href=\"https://doc.rust-lang.org/1.58.0/core/str/traits/trait.FromStr.html\" title=\"trait core::str::traits::FromStr\">FromStr</a> for <a class=\"enum\" href=\"datamodel_connector/capabilities/enum.ConnectorCapability.html\" title=\"enum datamodel_connector::capabilities::ConnectorCapability\">ConnectorCapability</a>''),
           (''synthetic'', JBool False),
           (''types'', JArr [JStr ''datamodel_connector::capabilities::ConnectorCapability''])]]"

text \<open>Line 13: \<^verbatim>\<open>implementors["dml"] = [...]\<close> (1 record).\<close>

definition implementors_dml :: jsval where
  "implementors_dml = JArr
    [JObj [(''text'', JStr ''impl <a class=\"trait\" href=\"https://doc.rust-lang.org/1.58.0/core/str/traits/trait.FromStr.html\" title=\"trait core::str::traits::FromStr\">FromStr</a> for <a class=\"enum\" href=\"dml/scalars/enum.ScalarType.html\" title=\"enum dml::scalars::ScalarType\">ScalarType</a>''),
           (''synthetic'', JBool False),
           (''types'', JArr [JStr ''dml::scalars::ScalarType''])]]"

text \<open>Line 14: \<^verbatim>\<open>implementors["graphql_parser"] = [...]\<close> (1 record).\<close>

definition implementors_graphql_parser :: jsval where
  "implementors_graphql_parser = JArr
    [JObj [(''text'', JStr ''impl <a class=\"trait\" href=\"https://doc.rust-lang.org/1.58.0/core/str/traits/trait.FromStr.html\" title=\"trait core::str::traits::FromStr\">FromStr</a> for <a class=\"enum\" href=\"graphql_parser/schema/enum.DirectiveLocation.html\" title=\"enum graphql_parser::schema::DirectiveLocation\">DirectiveLocation</a>''),
           (''synthetic'', JBool False),
           (''types'', JArr [JStr ''graphql_parser::schema::ast::DirectiveLocation''])]]"

text \<open>Line 15: \<^verbatim>\<open>implementors["http"] = [...]\<close> (8 records).\<close>

definition implementors_http :: jsval where
  "implementors_http = JArr
    [JObj [(''text'', JStr ''impl <a class=\"trait\" href=\"https://doc.rust-lang.org/1.58.0/core/str/traits/trait.FromStr.html\" title=\"trait core::str::traits::FromStr\">FromStr</a> for <a class=\"struct\" href=\"http/header/struct.HeaderName.html\" title=\"struct http::header::HeaderName\">HeaderName</a>''),
           (''synthetic'', JBool False),
           (''types'', JArr [JStr ''http::header::name::HeaderName''])],
     JObj [(''text'', JStr ''impl <a class=\"trait\" href=\"https://doc.rust-lang.org/1.58.0/core/str/traits/trait.FromStr.html\" title=\"trait core::str::traits::FromStr\">FromStr</a> for <a class=\"struct\" href=\"http/header/struct.HeaderValue.html\" title=\"struct http::header::HeaderValue\">HeaderValue</a>''),
           (''synthetic'', JBool False),
           (''types'', JArr [JStr ''http::header::value::HeaderValue''])],
     JObj [(''text'', JStr ''impl <a class=\"trait\" href=\"https://doc.rust-lang.org/1.58.0/core/str/traits/trait.FromStr.html\" title=\"trait core::str::traits::FromStr\">FromStr</a> for <a class=\"struct\" href=\"http/method/struct.Method.html\" title=\"struct http::method::Method\">Method</a>''),
           (''synthetic'', JBool False),
           (''types'', JArr [JStr ''http::method::Method''])],
     JObj [(''text'', JStr ''impl <a class=\"trait\" href=\"https://doc.rust-lang.org/1.58.0/core/str/traits/trait.FromStr.html\" title=\"trait core::str::traits::FromStr\">FromStr</a> for <a class=\"struct\" href=\"http/status/struct.StatusCode.html\" title=\"struct http::status::StatusCode\">StatusCode</a>''),
           (''synthetic'', JBool False),
           (''types'', JArr [JStr ''http::status::StatusCode''])],
     JObj [(''text'', JStr ''impl <a class=\"trait\" href=\"https://doc.rust-lang.org/1.58.0/core/str/traits/trait.FromStr.html\" title=\"trait core::str::traits::FromStr\">FromStr</a> for <a class=\"struct\" href=\"http/uri/struct.Authority.html\" title=\"struct http::uri::Authority\">Authority</a>''),
           (''synthetic'', JBool False),
           (''types'', JArr [JStr ''http::uri::authority::Authority''])],
     JObj [(''text'', JStr ''impl <a class=\"trait\" href=\"https://doc.rust-lang.org/1.58.0/core/str/traits/trait.FromStr.html\" title=\"trait core::str::traits::FromStr\">FromStr</a> for <a class=\"struct\" href=\"http/uri/struct.PathAndQuery.html\" title=\"struct http::uri::PathAndQuery\">PathAndQuery</a>''),
           (''synthetic'', JBool False),
           (''types'', JArr [JStr ''http::uri::path::PathAndQuery''])],
     JObj [(''text'', JStr ''impl <a class=\"trait\" href=\"https://doc.rust-lang.org/1.58.0/core/str/traits/trait.FromStr.html\" title=\"trait core::str::traits::FromStr\">FromStr</a> for <a class=\"struct\" href=\"http/uri/struct.Scheme.html\" title=\"struct http::uri::Scheme\">Scheme</a>''),
           (''synthetic'', JBool False),
           (''types'', JArr [JStr ''http::uri::scheme::Scheme''])],
     JObj [(''text'', JStr ''impl <a class=\"trait\" href=\"https://doc.rust-lang.org/1.58.0/core/str/traits/trait.FromStr.html\" title=\"trait core::str::traits::FromStr\">FromStr</a> for <a class=\"struct\" href=\"http/uri/struct.Uri.html\" title=\"struct http::uri::Uri\">Uri</a>''),
           (''synthetic'', JBool False),
           (''types'', JArr [JStr ''http::uri::Uri''])]]"

text \<open>Line 16: \<^verbatim>\<open>implementors["http_types"] = [...]\<close> (7 records).\<close>

definition implementors_http_types :: jsval where
  "implementors_http_types = JArr
    [JObj [(''text'', JStr ''impl <a class=\"trait\" href=\"https://doc.rust-lang.org/1.58.0/core/str/traits/trait.FromStr.html\" title=\"trait core::str::traits::FromStr\">FromStr</a> for <a class=\"enum\" href=\"http_types/auth/enum.AuthenticationScheme.html\" title=\"enum http_types::auth::AuthenticationScheme\">AuthenticationScheme</a>''),
           (''synthetic'', JBool False),
           (''types'', JArr [JStr ''http_types::auth::authentication_scheme::AuthenticationScheme''])],
     JObj [(''text'', JStr ''impl <a class=\"trait\" href=\"https://doc.rust-lang.org/1.58.0/core/str/traits/trait.FromStr.html\" title=\"trait core::str::traits::FromStr\">FromStr</a> for <a class=\"enum\" href=\"http_types/cache/enum.ClearDirective.html\" title=\"enum http_types::cache::ClearDirective\">ClearDirective</a>''),
           (''synthetic'', JBool False),
           (''types'', JArr [JStr ''http_types::cache::clear_site_data::directive::ClearDirective''])],
     JObj [(''text'', JStr ''impl <a class=\"trait\" href=\"https://doc.rust-lang.org/1.58.0/core/str/traits/trait.FromStr.html\" title=\"trait core::str::traits::FromStr\">FromStr</a> for <a class=\"struct\" href=\"http_types/headers/struct.HeaderName.html\" title=\"struct http_types::headers::HeaderName\">HeaderName</a>''),
           (''synthetic'', JBool False),
           (''types'', JArr [JStr ''http_types::headers::header_name::HeaderName''])],
     JObj [(''text'', JStr ''impl <a class=\"trait\" href=\"https://doc.rust-lang.org/1.58.0/core/str/traits/trait.FromStr.html\" title=\"trait core::str::traits::FromStr\">FromStr</a> for <a class=\"struct\" href=\"http_types/headers/struct.HeaderValue.html\" title=\"struct http_types::headers::HeaderValue\">HeaderValue</a>''),
           (''synthetic'', JBool False),
           (''types'', JArr [JStr ''http_types::headers::header_value::HeaderValue''])],
     JObj [(''text'', JStr ''impl <a class=\"trait\" href=\"https://doc.rust-lang.org/1.58.0/core/str/traits/trait.FromStr.html\" title=\"trait core::str::traits::FromStr\">FromStr</a> for <a class=\"struct\" href=\"http_types/struct.Mime.html\" title=\"struct http_types::Mime\">Mime</a>''),
           (''synthetic'', JBool False),
           (''types'', JArr [JStr ''http_types::mime::Mime''])],
     JObj [(''text'', JStr ''impl <a class=\"trait\" href=\"https://doc.rust-lang.org/1.58.0/core/str/traits/trait.FromStr.html\" title=\"trait core::str::traits::FromStr\">FromStr</a> for <a class=\"struct\" href=\"http_types/mime/struct.ParamName.html\" title=\"struct http_types::mime::ParamName\">ParamName</a>''),
           (''synthetic'', JBool False),
           (''types'', JArr [JStr ''http_types::mime::ParamName''])],
     JObj [(''text'', JStr ''impl <a class=\"trait\" href=\"https://doc.rust-lang.org/1.58.0/core/str/traits/trait.FromStr.html\" title=\"trait core::str::traits::FromStr\">FromStr</a> for <a class=\"enum\" href=\"http_types/enum.Method.html\" title=\"enum http_types::Method\">Method</a>''),
           (''synthetic'', JBool False),
           (''types'', JArr [JStr ''http_types::method::Method''])]]"

text \<open>Line 17: \<^verbatim>\<open>implementors["httpdate"] = [...]\<close> (1 record).\<close>

definition implementors_httpdate :: jsval where
  "implementors_httpdate = JArr
    [JObj [(''text'', JStr ''impl <a class=\"trait\" href=\"https://doc.rust-lang.org/1.58.0/core/str/traits/trait.FromStr.html\" title=\"trait core::str::traits::FromStr\">FromStr</a> for <a class=\"struct\" href=\"httpdate/struct.HttpDate.html\" title=\"struct httpdate::HttpDate\">HttpDate</a>''),
           (''synthetic'', JBool False),
           (''types'', JArr [JStr ''httpdate::date::HttpDate''])]]"

text \<open>Line 18: \<^verbatim>\<open>implementors["hyper"] = [...]\<close> (1 record).\<close>

definition implementors_hyper :: jsval where
  "implementors_hyper = JArr
    [JObj [(''text'', JStr ''impl <a class=\"trait\" href=\"https://doc.rust-lang.org/1.58.0/core/str/traits/trait.FromStr.html\" title=\"trait core::str::traits::FromStr\">FromStr</a> for <a class=\"struct\" href=\"hyper/client/connect/dns/struct.Name.html\" title=\"struct hyper::client::connect::dns::Name\">Name</a>''),
           (''synthetic'', JBool False),
           (''types'', JArr [JStr ''hyper::client::connect::dns::Name''])]]"

text \<open>Line 19: \<^verbatim>\<open>implementors["ipnet"] = [...]\<close> (3 records).\<close>

definition implementors_ipnet :: jsval where
  "implementors_ipnet = JArr
    [JObj [(''text'', JStr ''impl <a class=\"trait\" href=\"https://doc.rust-lang.org/1.58.0/core/str/traits/trait.FromStr.html\" title=\"trait core::str::traits::FromStr\">FromStr</a> for <a class=\"enum\" href=\"ipnet/enum.IpNet.html\" title=\"enum ipnet::IpNet\">IpNet</a>''),
           (''synthetic'', JBool False),
           (''types'', JArr [JStr ''ipnet::ipnet::IpNet''])],
     JObj [(''text'', JStr ''impl <a class=\"trait\" href=\"https://doc.rust-lang.org/1.58.0/core/str/traits/trait.FromStr.html\" title=\"trait core::str::traits::FromStr\">FromStr</a> for <a class=\"struct\" href=\"ipnet/struct.Ipv4Net.html\" title=\"struct ipnet::Ipv4Net\">Ipv4Net</a>''),
           (''synthetic'', JBool False),
           (''types'', JArr [JStr ''ipnet::ipnet::Ipv4Net''])],
     JObj [(''text'', JStr ''impl <a class=\"trait\" href=\"https://doc.rust-lang.org/1.58.0/core/str/traits/trait.FromStr.html\" title=\"trait core::str::traits::FromStr\">FromStr</a> for <a class=\"struct\" href=\"ipnet/struct.Ipv6Net.html\" title=\"struct ipnet::Ipv6Net\">Ipv6Net</a>''),
           (''synthetic'', JBool False),
           (''types'', JArr [JStr ''ipnet::ipnet::Ipv6Net''])]]"

text \<open>Line 20: \<^verbatim>\<open>implementors["log"] = [...]\<close> (2 records).\<close>

definition implementors_log :: jsval where
  "implementors_log = JArr
    [JObj [(''text'', JStr ''impl <a class=\"trait\" href=\"https://doc.rust-lang.org/1.58.0/core/str/traits/trait.FromStr.html\" title=\"trait core::str::traits::FromStr\">FromStr</a> for <a class=\"enum\" href=\"log/enum.Level.html\" title=\"enum log::Level\">Level</a>''),
           (''synthetic'', JBool False),
           (''types'', JArr [JStr ''log::Level''])],
     JObj [(''text'', JStr ''impl <a class=\"trait\" href=\"https://doc.rust-lang.org/1.58.0/core/str/traits/trait.FromStr.html\" title=\"trait core::str::traits::FromStr\">FromStr</a> for <a class=\"enum\" href=\"log/enum.LevelFilter.html\" title=\"enum log::LevelFilter\">LevelFilter</a>''),
           (''synthetic'', JBool False),
           (''types'', JArr [JStr ''log::LevelFilter''])]]"

text \<open>Line 21: \<^verbatim>\<open>implementors["matchers"] = [...]\<close> (1 record).\<close>

definition implementors_matchers :: jsval where
  "implementors_matchers = JArr
    [JObj [(''text'', JStr ''impl <a class=\"trait\" href=\"https://doc.rust-lang.org/1.58.0/core/str/traits/trait.FromStr.html\" title=\"trait core::str::traits::FromStr\">FromStr</a> for <a class=\"struct\" href=\"matchers/struct.Pattern.html\" title=\"struct matchers::Pattern\">Pattern</a>''),
           (''synthetic'', JBool False),
           (''types'', JArr [JStr ''matchers::Pattern''])]]"

text \<open>Line 22: \<^verbatim>\<open>implementors["mongodb"] = [...]\<close> (6 records).\<close>

definition implementors_mongodb :: jsval where
  "implementors_mongodb = JArr
    [JObj [(''text'', JStr ''impl <a class=\"trait\" href=\"https://doc.rust-lang.org/1.58.0/core/str/traits/trait.FromStr.html\" title=\"trait core::str::traits::FromStr\">FromStr</a> for <a class=\"enum\" href=\"mongodb/options/enum.AuthMechanism.html\" title=\"enum mongodb::options::AuthMechanism\">AuthMechanism</a>''),
           (''synthetic'', JBool False),
           (''types'', JArr [JStr ''mongodb::client::auth::AuthMechanism''])],
     JObj [(''text'', JStr ''impl <a class=\"trait\" href=\"https://doc.rust-lang.org/1.58.0/core/str/traits/trait.FromStr.html\" title=\"trait core::str::traits::FromStr\">FromStr</a> for <a class=\"enum\" href=\"mongodb/options/enum.ServerAddress.html\" title=\"enum mongodb::options::ServerAddress\">ServerAddress</a>''),
           (''synthetic'', JBool False),
           (''types'', JArr [JStr ''mongodb::client::options::ServerAddress''])],
     JObj [(''text'', JStr ''impl <a class=\"trait\" href=\"https://doc.rust-lang.org/1.58.0/core/str/traits/trait.FromStr.html\" title=\"trait core::str::traits::FromStr\">FromStr</a> for <a class=\"enum\" href=\"mongodb/options/enum.ServerApiVersion.html\" title=\"enum mongodb::options::ServerApiVersion\">ServerApiVersion</a>''),
           (''synthetic'', JBool False),
           (''types'', JArr [JStr ''mongodb::client::options::ServerApiVersion''])],
     JObj [(''text'', JStr ''impl <a class=\"trait\" href=\"https://doc.rust-lang.org/1.58.0/core/str/traits/trait.FromStr.html\" title=\"trait core::str::traits::FromStr\">FromStr</a> for <a class=\"enum\" href=\"mongodb/options/enum.CollationCaseFirst.html\" title=\"enum mongodb::options::CollationCaseFirst\">CollationCaseFirst</a>''),
           (''synthetic'', JBool False),
           (''types'', JArr [JStr ''mongodb::collation::CollationCaseFirst''])],
     JObj [(''text'', JStr ''impl <a class=\"trait\" href=\"https://doc.rust-lang.org/1.58.0/core/str/traits/trait.FromStr.html\" title=\"trait core::str::traits::FromStr\">FromStr</a> for <a class=\"enum\" href=\"mongodb/options/enum.CollationAlternate.html\" title=\"enum mongodb::options::CollationAlternate\">CollationAlternate</a>''),
           (''synthetic'', JBool False),
           (''types'', JArr [JStr ''mongodb::collation::CollationAlternate''])],
     JObj [(''text'', JStr ''impl <a class=\"trait\" href=\"https://doc.rust-lang.org/1.58.0/core/str/traits/trait.FromStr.html\" title=\"trait core::str::traits::FromStr\">FromStr</a> for <a class=\"enum\" href=\"mongodb/options/enum.CollationMaxVariable.html\" title=\"enum mongodb::options::CollationMaxVariable\">CollationMaxVariable</a>''),
           (''synthetic'', JBool False),
           (''types'', JArr [JStr ''mongodb::collation::CollationMaxVariable''])]]"

text \<open>Line 23: \<^verbatim>\<open>implementors["mysql_async"] = [...]\<close> (1 record).\<close>

definition implementors_mysql_async :: jsval where
  "implementors_mysql_async = JArr
    [JObj [(''text'', JStr ''impl <a class=\"trait\" href=\"https://doc.rust-lang.org/1.58.0/core/str/traits/trait.FromStr.html\" title=\"trait core::str::traits::FromStr\">FromStr</a> for <a class=\"struct\" href=\"mysql_async/struct.Opts.html\" title=\"struct mysql_async::Opts\">Opts</a>''),
           (''synthetic'', JBool False),
           (''types'', JArr [JStr ''mysql_async::opts::Opts''])]]"

text \<open>Line 24: \<^verbatim>\<open>implementors["num_bigint"] = [...]\<close> (2 records).\<close>

definition implementors_num_bigint :: jsval where
  "implementors_num_bigint = JArr
    [JObj [(''text'', JStr ''impl <a class=\"trait\" href=\"https://doc.rust-lang.org/1.58.0/core/str/traits/trait.FromStr.html\" title=\"trait core::str::traits::FromStr\">FromStr</a> for <a class=\"struct\" href=\"num_bigint/struct.BigInt.html\" title=\"struct num_bigint::BigInt\">BigInt</a>''),
           (''synthetic'', JBool False),
           (''types'', JArr [JStr ''num_bigint::bigint::BigInt''])],
     JObj [(''text'', JStr ''impl <a class=\"trait\" href=\"https://doc.rust-lang.org/1.58.0/core/str/traits/trait.FromStr.html\" title=\"trait core::str::traits::FromStr\">FromStr</a> for <a class=\"struct\" href=\"num_bigint/struct.BigUint.html\" title=\"struct num_bigint::BigUint\">BigUint</a>''),
           (''synthetic'', JBool False),
           (''types'', JArr [JStr ''num_bigint::biguint::BigUint''])]]"

text \<open>Line 25: \<^verbatim>\<open>implementors["opentelemetry"] = [...]\<close> (1 record).\<close>

definition implementors_opentelemetry :: jsval where
  "implementors_opentelemetry = JArr
    [JObj [(''text'', JStr ''impl <a class=\"trait\" href=\"https://doc.rust-lang.org/1.58.0/core/str/traits/trait.FromStr.html\" title=\"trait core::str::traits::FromStr\">FromStr</a> for <a class=\"struct\" href=\"opentelemetry/trace/struct.TraceState.html\" title=\"struct opentelemetry::trace::TraceState\">TraceState</a>''),
           (''synthetic'', JBool False),
           (''types'', JArr [JStr ''opentelemetry::trace::span_context::TraceState''])]]"

text \<open>Line 26: \<^verbatim>\<open>implementors["postgres_types"] = [...]\<close> (1 record).\<close>

definition implementors_postgres_types :: jsval where
  "implementors_postgres_types = JArr
    [JObj [(''text'', JStr ''impl <a class=\"trait\" href=\"https://doc.rust-lang.org/1.58.0/core/str/traits/trait.FromStr.html\" title=\"trait core::str::traits::FromStr\">FromStr</a> for <a class=\"struct\" href=\"postgres_types/struct.PgLsn.html\" title=\"struct postgres_types::PgLsn\">PgLsn</a>''),
           (''synthetic'', JBool False),
           (''types'', JArr [JStr ''postgres_types::pg_lsn::PgLsn''])]]"

text \<open>Line 27: \<^verbatim>\<open>implementors["proc_macro2"] = [...]\<close> (2 records).\<close>

definition implementors_proc_macro2 :: jsval where
  "implementors_proc_macro2 = JArr
    [JObj [(''text'', JStr ''impl <a class=\"trait\" href=\"https://doc.rust-lang.org/1.58.0/core/str/traits/trait.FromStr.html\" title=\"trait core::str::traits::FromStr\">FromStr</a> for <a class=\"struct\" href=\"proc_macro2/struct.TokenStream.html\" title=\"struct proc_macro2::TokenStream\">TokenStream</a>''),
           (''synthetic'', JBool False),
           (''types'', JArr [JStr ''proc_macro2::TokenStream''])],
     JObj [(''text'', JStr ''impl <a class=\"trait\" href=\"https://doc.rust-lang.org/1.58.0/core/str/traits/trait.FromStr.html\" title=\"trait core::str::traits::FromStr\">FromStr</a> for <a class=\"struct\" href=\"proc_macro2/struct.Literal.html\" title=\"struct proc_macro2::Literal\">Literal</a>''),
           (''synthetic'', JBool False),
           (''types'', JArr [JStr ''proc_macro2::Literal''])]]"

text \<open>Line 28: \<^verbatim>\<open>implementors["quaint"] = [...]\<close> (2 records).\<close>

definition implementors_quaint :: jsval where
  "implementors_quaint = JArr
    [JObj [(''text'', JStr ''impl <a class=\"trait\" href=\"https://doc.rust-lang.org/1.58.0/core/str/traits/trait.FromStr.html\" title=\"trait core::str::traits::FromStr\">FromStr</a> for <a class=\"enum\" href=\"quaint/connector/enum.EncryptMode.html\" title=\"enum quaint::connector::EncryptMode\">EncryptMode</a>''),
           (''synthetic'', JBool False),
           (''types'', JArr [JStr ''quaint::connector::mssql::EncryptMode''])],
     JObj [(''text'', JStr ''impl <a class=\"trait\" href=\"https://doc.rust-lang.org/1.58.0/core/str/traits/trait.FromStr.html\" title=\"trait core::str::traits::FromStr\">FromStr</a> for <a class=\"enum\" href=\"quaint/connector/enum.IsolationLevel.html\" title=\"enum quaint::connector::IsolationLevel\">IsolationLevel</a>''),
           (''synthetic'', JBool False),
           (''types'', JArr [JStr ''quaint::connector::mssql::IsolationLevel''])]]"

text \<open>Line 29: \<^verbatim>\<open>implementors["query_tests_setup"] = [...]\<close> (2 records).\<close>

definition implementors_query_tests_setup :: jsval where
  "implementors_query_tests_setup = JArr
    [JObj [(''text'', JStr ''impl <a class=\"trait\" href=\"https://doc.rust-lang.org/1.58.0/core/str/traits/trait.FromStr.html\" title=\"trait core::str::traits::FromStr\">FromStr</a> for <a class=\"enum\" href=\"query_tests_setup/enum.VitessVersion.html\" title=\"enum query_tests_setup::VitessVersion\">VitessVersion</a>''),
           (''synthetic'', JBool False),
           (''types'', JArr [JStr ''query_tests_setup::connector_tag::vitess::VitessVersion''])],
     JObj [(''text'', JStr ''impl <a class=\"trait\" href=\"https://doc.rust-lang.org/1.58.0/core/str/traits/trait.FromStr.html\" title=\"trait core::str::traits::FromStr\">FromStr</a> for <a class=\"struct\" href=\"query_tests_setup/struct.DatamodelWithParams.html\" title=\"struct query_tests_setup::DatamodelWithParams\">DatamodelWithParams</a>''),
           (''synthetic'', JBool False),
           (''types'', JArr [JStr ''query_tests_setup::schema_gen::schema_with_relation::DatamodelWithParams''])]]"

text \<open>Line 30: \<^verbatim>\<open>implementors["regex"] = [...]\<close> (2 records).\<close>

definition implementors_regex :: jsval where
  "implementors_regex = JArr
    [JObj [(''text'', JStr ''impl <a class=\"trait\" href=\"https://doc.rust-lang.org/1.58.0/core/str/traits/trait.FromStr.html\" title=\"trait core::str::traits::FromStr\">FromStr</a> for <a class=\"struct\" href=\"regex/bytes/struct.Regex.html\" title=\"struct regex::bytes::Regex\">Regex</a>''),
           (''synthetic'', JBool False),
           (''types'', JArr [JStr ''regex::re_bytes::Regex''])],
     JObj [(''text'', JStr ''impl <a class=\"trait\" href=\"https://doc.rust-lang.org/1.58.0/core/str/traits/trait.FromStr.html\" title=\"trait core::str::traits::FromStr\">FromStr</a> for <a class=\"struct\" href=\"regex/struct.Regex.html\" title=\"struct regex::Regex\">Regex</a>''),
           (''synthetic'', JBool False),
           (''types'', JArr [JStr ''regex::re_unicode::Regex''])]]"

text \<open>Line 31: \<^verbatim>\<open>implementors["resolv_conf"] = [...]\<close> (1 record).\<close>

definition implementors_resolv_conf :: jsval where
  "implementors_resolv_conf = JArr
    [JObj [(''text'', JStr ''impl <a class=\"trait\" href=\"https://doc.rust-lang.org/1.58.0/core/str/traits/trait.FromStr.html\" title=\"trait core::str::traits::FromStr\">FromStr</a> for <a class=\"enum\" href=\"resolv_conf/enum.ScopedIp.html\" title=\"enum resolv_conf::ScopedIp\">ScopedIp</a>''),
           (''synthetic'', JBool False),
           (''types'', JArr [JStr ''resolv_conf::ip::ScopedIp''])]]"

text \<open>Line 32: \<^verbatim>\<open>implementors["serde_json"] = [...]\<close> (2 records).\<close>

definition implementors_serde_json :: jsval where
  "implementors_serde_json = JArr
    [JObj [(''text'', JStr ''impl <a class=\"trait\" href=\"https://doc.rust-lang.org/1.58.0/core/str/traits/trait.FromStr.html\" title=\"trait core::str::traits::FromStr\">FromStr</a> for <a class=\"struct\" href=\"serde_json/value/struct.Number.html\" title=\"struct serde_json::value::Number\">Number</a>''),
           (''synthetic'', JBool False),
           (''types'', JArr [JStr ''serde_json::number::Number''])],
     JObj [(''text'', JStr ''impl <a class=\"trait\" href=\"https://doc.rust-lang.org/1.58.0/core/str/traits/trait.FromStr.html\" title=\"trait core::str::traits::FromStr\">FromStr</a> for <a class=\"enum\" href=\"serde_json/enum.Value.html\" title=\"enum serde_json::Value\">Value</a>''),
           (''synthetic'', JBool False),
           (''types'', JArr [JStr ''serde_json::value::Value''])]]"

text \<open>Line 33: \<^verbatim>\<open>implementors["sha1"] = [...]\<close> (1 record).\<close>

definition implementors_sha1 :: jsval where
  "implementors_sha1 = JArr
    [JObj [(''text'', JStr ''impl <a class=\"trait\" href=\"https://doc.rust-lang.org/1.58.0/core/str/traits/trait.FromStr.html\" title=\"trait core::str::traits::FromStr\">FromStr</a> for <a class=\"struct\" href=\"sha1/struct.Digest.html\" title=\"struct sha1::Digest\">Digest</a>''),
           (''synthetic'', JBool False),
           (''types'', JArr [JStr ''sha1::Digest''])]]"

text \<open>Line 34: \<^verbatim>\<open>implementors["test_cli"] = [...]\<close> (1 record).\<close>

definition implementors_test_cli :: jsval where
  "implementors_test_cli = JArr
    [JObj [(''text'', JStr ''impl <a class=\"trait\" href=\"https://doc.rust-lang.org/1.58.0/core/str/traits/trait.FromStr.html\" title=\"trait core::str::traits::FromStr\">FromStr</a> for <a class=\"enum\" href=\"test_cli/enum.DiffOutputType.html\" title=\"enum test_cli::DiffOutputType\">DiffOutputType</a>''),
           (''synthetic'', JBool False),
           (''types'', JArr [JStr ''test_cli::DiffOutputType''])]]"

text \<open>Line 35: \<^verbatim>\<open>implementors["tokio_postgres"] = [...]\<close> (1 record).\<close>

definition implementors_tokio_postgres :: jsval where
  "implementors_tokio_postgres = JArr
    [JObj [(''text'', JStr ''impl <a class=\"trait\" href=\"https://doc.rust-lang.org/1.58.0/core/str/traits/trait.FromStr.html\" title=\"trait core::str::traits::FromStr\">FromStr</a> for <a class=\"struct\" href=\"tokio_postgres/config/struct.Config.html\" title=\"struct tokio_postgres::config::Config\">Config</a>''),
           (''synthetic'', JBool False),
           (''types'', JArr [JStr ''tokio_postgres::config::Config''])]]"

text \<open>Line 36: \<^verbatim>\<open>implementors["toml"] = [...]\<close> (2 records).\<close>

definition implementors_toml :: jsval where
  "implementors_toml = JArr
    [JObj [(''text'', JStr ''impl <a class=\"trait\" href=\"https://doc.rust-lang.org/1.58.0/core/str/traits/trait.FromStr.html\" title=\"trait core::str::traits::FromStr\">FromStr</a> for <a class=\"enum\" href=\"toml/value/enum.Value.html\" title=\"enum toml::value::Value\">Value</a>''),
           (''synthetic'', JBool False),
           (''types'', JArr [JStr ''toml::value::Value''])],
     JObj [(''text'', JStr ''impl <a class=\"trait\" href=\"https://doc.rust-lang.org/1.58.0/core/str/traits/trait.FromStr.html\" title=\"trait core::str::traits::FromStr\">FromStr</a> for <a class=\"struct\" href=\"toml/value/struct.Datetime.html\" title=\"struct toml::value::Datetime\">Datetime</a>''),
           (''synthetic'', JBool False),
           (''types'', JArr [JStr ''toml::datetime::Datetime''])]]"

text \<open>Line 37: \<^verbatim>\<open>implementors["tonic"] = [...]\<close> (2 records).\<close>

definition implementors_tonic :: jsval where
  "implementors_tonic = JArr
    [JObj [(''text'', JStr ''impl&lt;VE:&nbsp;ValueEncoding&gt; <a class=\"trait\" href=\"https://doc.rust-lang.org/1.58.0/core/str/traits/trait.FromStr.html\" title=\"trait core::str::traits::FromStr\">FromStr</a> for <a class=\"struct\" href=\"tonic/metadata/struct.MetadataKey.html\" title=\"struct tonic::metadata::MetadataKey\">MetadataKey</a>&lt;VE&gt;''),
           (''synthetic'', JBool False),
           (''types'', JArr [JStr ''tonic::metadata::key::MetadataKey''])],
     JObj [(''text'', JStr ''impl <a class=\"trait\" href=\"https://doc.rust-lang.org/1.58.0/core/str/traits/trait.FromStr.html\" title=\"trait core::str::traits::FromStr\">FromStr</a> for <a class=\"struct\" href=\"tonic/transport/channel/struct.Endpoint.html\" title=\"struct tonic::transport::channel::Endpoint\">Endpoint</a>''),
           (''synthetic'', JBool False),
           (''types'', JArr [JStr ''tonic::transport::channel::endpoint::Endpoint''])]]"

text \<open>Line 38: \<^verbatim>\<open>implementors["tracing_core"] = [...]\<close> (2 records).\<close>

definition implementors_tracing_core :: jsval where
  "implementors_tracing_core = JArr
    [JObj [(''text'', JStr ''impl <a class=\"trait\" href=\"https://doc.rust-lang.org/1.58.0/core/str/traits/trait.FromStr.html\" title=\"trait core::str::traits::FromStr\">FromStr</a> for <a class=\"struct\" href=\"tracing_core/struct.Level.html\" title=\"struct tracing_core::Level\">Level</a>''),
           (''synthetic'', JBool False),
           (''types'', JArr [JStr ''tracing_core::metadata::Level''])],
     JObj [(''text'', JStr ''impl <a class=\"trait\" href=\"https://doc.rust-lang.org/1.58.0/core/str/traits/trait.FromStr.html\" title=\"trait core::str::traits::FromStr\">FromStr</a> for <a class=\"struct\" href=\"tracing_core/struct.LevelFilter.html\" title=\"struct tracing_core::LevelFilter\">LevelFilter</a>''),
           (''synthetic'', JBool False),
           (''types'', JArr [JStr ''tracing_core::metadata::LevelFilter''])]]"

text \<open>Line 39: \<^verbatim>\<open>implementors["tracing_subscriber"] = [...]\<close> (3 records).\<close>

definition implementors_tracing_subscriber :: jsval where
  "implementors_tracing_subscriber = JArr
    [JObj [(''text'', JStr ''impl <a class=\"trait\" href=\"https://doc.rust-lang.org/1.58.0/core/str/traits/trait.FromStr.html\" title=\"trait core::str::traits::FromStr\">FromStr</a> for <a class=\"struct\" href=\"tracing_subscriber/filter/struct.Directive.html\" title=\"struct tracing_subscriber::filter::Directive\">Directive</a>''),
           (''synthetic'', JBool False),
           (''types'', JArr [JStr ''tracing_subscriber::filter::env::directive::Directive''])],
     JObj [(''text'', JStr ''impl <a class=\"trait\" href=\"https://doc.rust-lang.org/1.58.0/core/str/traits/trait.FromStr.html\" title=\"trait core::str::traits::FromStr\">FromStr</a> for <a class=\"struct\" href=\"tracing_subscriber/filter/struct.EnvFilter.html\" title=\"struct tracing_subscriber::filter::EnvFilter\">EnvFilter</a>''),
           (''synthetic'', JBool False),
           (''types'', JArr [JStr ''tracing_subscriber::filter::env::EnvFilter''])],
     JObj [(''text'', JStr ''impl <a class=\"trait\" href=\"https://doc.rust-lang.org/1.58.0/core/str/traits/trait.FromStr.html\" title=\"trait core::str::traits::FromStr\">FromStr</a> for <a class=\"struct\" href=\"tracing_subscriber/filter/targets/struct.Targets.html\" title=\"struct tracing_subscriber::filter::targets::Targets\">Targets</a>''),
           (''synthetic'', JBool False),
           (''types'', JArr [JStr ''tracing_subscriber::filter::targets::Targets''])]]"

text \<open>Line 40: \<^verbatim>\<open>implementors["trust_dns_proto"] = [...]\<close> (4 records).\<close>

definition implementors_trust_dns_proto :: jsval where
  "implementors_trust_dns_proto = JArr
    [JObj [(''text'', JStr ''impl <a class=\"trait\" href=\"https://doc.rust-lang.org/1.58.0/core/str/traits/trait.FromStr.html\" title=\"trait core::str::traits::FromStr\">FromStr</a> for <a class=\"enum\" href=\"trust_dns_proto/rr/dns_class/enum.DNSClass.html\" title=\"enum trust_dns_proto::rr::dns_class::DNSClass\">DNSClass</a>''),
           (''synthetic'', JBool False),
           (''types'', JArr [JStr ''trust_dns_proto::rr::dns_class::DNSClass''])],
     JObj [(''text'', JStr ''impl <a class=\"trait\" href=\"https://doc.rust-lang.org/1.58.0/core/str/traits/trait.FromStr.html\" title=\"trait core::str::traits::FromStr\">FromStr</a> for <a class=\"struct\" href=\"trust_dns_proto/rr/domain/struct.Name.html\" title=\"struct trust_dns_proto::rr::domain::Name\">Name</a>''),
           (''synthetic'', JBool False),
           (''types'', JArr [JStr ''trust_dns_proto::rr::domain::name::Name''])],
     JObj [(''text'', JStr ''impl <a class=\"trait\" href=\"https://doc.rust-lang.org/1.58.0/core/str/traits/trait.FromStr.html\" title=\"trait core::str::traits::FromStr\">FromStr</a> for <a class=\"enum\" href=\"trust_dns_proto/rr/rdata/svcb/enum.SvcParamKey.html\" title=\"enum trust_dns_proto::rr::rdata::svcb::SvcParamKey\">SvcParamKey</a>''),
           (''synthetic'', JBool False),
           (''types'', JArr [JStr ''trust_dns_proto::rr::rdata::svcb::SvcParamKey''])],
     JObj [(''text'', JStr ''impl <a class=\"trait\" href=\"https://doc.rust-lang.org/1.58.0/core/str/traits/trait.FromStr.html\" title=\"trait core::str::traits::FromStr\">FromStr</a> for <a class=\"enum\" href=\"trust_dns_proto/rr/record_type/enum.RecordType.html\" title=\"enum trust_dns_proto::rr::record_type::RecordType\">RecordType</a>''),
           (''synthetic'', JBool False),
           (''types'', JArr [JStr ''trust_dns_proto::rr::record_type::RecordType''])]]"

text \<open>Line 41: \<^verbatim>\<open>implementors["url"] = [...]\<close> (1 record).\<close>

definition implementors_url :: jsval where
  "implementors_url = JArr
    [JObj [(''text'', JStr ''impl <a class=\"trait\" href=\"https://doc.rust-lang.org/1.58.0/core/str/traits/trait.FromStr.html\" title=\"trait core::str::traits::FromStr\">FromStr</a> for <a class=\"struct\" href=\"url/struct.Url.html\" title=\"struct url::Url\">Url</a>''),
           (''synthetic'', JBool False),
           (''types'', JArr [JStr ''url::Url''])]]"

text \<open>Line 42: \<^verbatim>\<open>implementors["uuid"] = [...]\<close> (1 record).\<close>

definition implementors_uuid :: jsval where
  "implementors_uuid = JArr
    [JObj [(''text'', JStr ''impl <a class=\"trait\" href=\"https://doc.rust-lang.org/1.58.0/core/str/traits/trait.FromStr.html\" title=\"trait core::str::traits::FromStr\">FromStr</a> for <a class=\"struct\" href=\"uuid/struct.Uuid.html\" title=\"struct uuid::Uuid\">Uuid</a>''),
           (''synthetic'', JBool False),
           (''types'', JArr [JStr ''uuid::Uuid''])]]"

text \<open>The assignments of lines 2 to 42, in source order: key and right-hand side.\<close>

definition implementors_statements :: "(string \<times> jsval) list" where
  "implementors_statements =
    [(''arrayvec'', implementors_arrayvec),
     (''ascii'', implementors_ascii),
     (''async_std'', implementors_async_std),
     (''bigdecimal'', implementors_bigdecimal),
     (''bson'', implementors_bson),
     (''chrono'', implementors_chrono),
     (''clap'', implementors_clap),
     (''colored'', implementors_colored),
     (''connection_string'', implementors_connection_string),
     (''cookie'', implementors_cookie),
     (''datamodel_connector'', implementors_datamodel_connector),
     (''dml'', implementors_dml),
     (''graphql_parser'', implementors_graphql_parser),
     (''http'', implementors_http),
     (''http_types'', implementors_http_types),
     (''httpdate'', implementors_httpdate),
     (''hyper'', implementors_hyper),
     (''ipnet'', implementors_ipnet),
     (''log'', implementors_log),
     (''matchers'', implementors_matchers),
     (''mongodb'', implementors_mongodb),
     (''mysql_async'', implementors_mysql_async),
     (''num_bigint'', implementors_num_bigint),
     (''opentelemetry'', implementors_opentelemetry),
     (''postgres_types'', implementors_postgres_types),
     (''proc_macro2'', implementors_proc_macro2),
     (''quaint'', implementors_quaint),
     (''query_tests_setup'', implementors_query_tests_setup),
     (''regex'', implementors_regex),
     (''resolv_conf'', implementors_resolv_conf),
     (''serde_json'', implementors_serde_json),
     (''sha1'', implementors_sha1),
     (''test_cli'', implementors_test_cli),
     (''tokio_postgres'', implementors_tokio_postgres),
     (''toml'', implementors_toml),
     (''tonic'', implementors_tonic),
     (''tracing_core'', implementors_tracing_core),
     (''tracing_subscriber'', implementors_tracing_subscriber),
     (''trust_dns_proto'', implementors_trust_dns_proto),
     (''url'', implementors_url),
     (''uuid'', implementors_uuid)]"

text \<open>
  \<^verbatim>\<open>var implementors = {};\<close> followed by the 41 assignments
  \<^verbatim>\<open>implementors[key] = value\<close>.
\<close>

definition implementors :: jsval where
  "implementors = JObj (foldl (\<lambda>ps (k, v). set_property ps k v) [] implementors_statements)"

section \<open>Shape of the registry\<close>

fun is_nonempty_array :: "jsval \<Rightarrow> bool" where
  "is_nonempty_array (JArr xs) = (xs \<noteq> [])"
| "is_nonempty_array v = False"

fun is_nonempty_string :: "jsval \<Rightarrow> bool" where
  "is_nonempty_string (JStr s) = (s \<noteq> [])"
| "is_nonempty_string v = False"

fun is_boolean :: "jsval \<Rightarrow> bool" where
  "is_boolean (JBool b) = True"
| "is_boolean v = False"

text \<open>An implementor record: an object with exactly the three properties.\<close>

definition is_record :: "jsval \<Rightarrow> bool" where
  "is_record r = (case r of
       JObj ps \<Rightarrow> map fst ps = [''text'', ''synthetic'', ''types'']
     | _ \<Rightarrow> False)"

definition record_shape :: "jsval \<Rightarrow> bool" where
  "record_shape r =
     (is_nonempty_string (get_property (properties r) ''text'') \<and>
      is_boolean (get_property (properties r) ''synthetic'') \<and>
      get_property (properties r) ''synthetic'' = JBool False \<and>
      is_nonempty_array (get_property (properties r) ''types''))"

definition well_formed_entry :: "jsval \<Rightarrow> bool" where
  "well_formed_entry v =
     (is_nonempty_array v \<and> list_all is_record (elements v) \<and> list_all record_shape (elements v))"

section \<open>The host page\<close>

text \<open>
  \<^verbatim>\<open>window\<close> is taken to be the global object, and its two properties
  \<^verbatim>\<open>register_implementors\<close> and \<^verbatim>\<open>pending_implementors\<close> to be plain data
  properties; a property that is absent reads as \<^verbatim>\<open>undefined\<close>. Everything else
  the page holds is the field \<open>others\<close>.
\<close>

record 'x window =
  register_implementors :: jsval
  pending_implementors :: jsval
  others :: 'x

datatype slot = Register_implementors | Pending_implementors

fun read_slot :: "slot \<Rightarrow> 'x window \<Rightarrow> jsval" where
  "read_slot Register_implementors w = register_implementors w"
| "read_slot Pending_implementors w = pending_implementors w"

fun write_slot :: "slot \<Rightarrow> jsval \<Rightarrow> 'x window \<Rightarrow> 'x window" where
  "write_slot Register_implementors v w = w\<lparr>register_implementors := v\<rparr>"
| "write_slot Pending_implementors v w = w\<lparr>pending_implementors := v\<rparr>"

text \<open>
  How an evaluation ends: normally, by an exception (calling a value that is not a
  function raises a \<^verbatim>\<open>TypeError\<close>; a callback may throw any value), or not at
  all. The window is the one left behind.
\<close>

datatype exn = TypeError | Thrown jsval

datatype 'w completion = Normal 'w | Throw exn 'w | Diverge

text \<open>
  The host decides what calling function \<open>f\<close> with arguments \<open>args\<close> does to the
  page. It may write either slot, throw, or never return.
\<close>

type_synonym 'x host = "nat \<Rightarrow> jsval list \<Rightarrow> 'x window \<Rightarrow> 'x window completion"

text \<open>What the script itself does to the page, in order.\<close>

datatype event = Read slot | Write slot jsval | Call nat "jsval list"

type_synonym 'x config = "event list \<times> 'x window"

definition get_member :: "slot \<Rightarrow> 'x config \<Rightarrow> jsval \<times> 'x config" where
  "get_member s c = (read_slot s (snd c), (fst c @ [Read s], snd c))"

definition put_member :: "slot \<Rightarrow> jsval \<Rightarrow> 'x config \<Rightarrow> 'x config" where
  "put_member s v c = (fst c @ [Write s v], write_slot s v (snd c))"

definition call_value ::
  "'x host \<Rightarrow> jsval \<Rightarrow> jsval list \<Rightarrow> 'x config \<Rightarrow> event list \<times> 'x window completion" where
  "call_value host callee args c =
     (case callee of
        JFun f \<Rightarrow> (fst c @ [Call f args], host f args (snd c))
      | _ \<Rightarrow> (fst c, Throw TypeError (snd c)))"

text \<open>
  Line 43:
  \<^verbatim>\<open>if (window.register_implementors) {window.register_implementors(implementors);}
  else {window.pending_implementors = implementors;}\<close>
\<close>

definition publish :: "'x host \<Rightarrow> 'x window \<Rightarrow> event list \<times> 'x window completion" where
  "publish host w =
     (let (cond, c1) = get_member Register_implementors ([], w) in
      if truthy cond
      then (let (callee, c2) = get_member Register_implementors c1
            in call_value host callee [implementors] c2)
      else (let c2 = put_member Pending_implementors implementors c1
            in (fst c2, Normal (snd c2))))"

text \<open>
  The same statement as a relation, for a host whose functions need not be
  deterministic: \<open>H f args w r\<close> says that calling \<open>f\<close> may end as \<open>r\<close>.
\<close>

inductive publish_run ::
  "(nat \<Rightarrow> jsval list \<Rightarrow> 'x window \<Rightarrow> 'x window completion \<Rightarrow> bool) \<Rightarrow>
   'x window \<Rightarrow> event list \<Rightarrow> 'x window completion \<Rightarrow> bool"
  for H :: "nat \<Rightarrow> jsval list \<Rightarrow> 'x window \<Rightarrow> 'x window completion \<Rightarrow> bool"
where
  run_call:
    "truthy (register_implementors w) \<Longrightarrow> register_implementors w = JFun f \<Longrightarrow>
     H f [implementors] w r \<Longrightarrow>
     publish_run H w
       [Read Register_implementors, Read Register_implementors, Call f [implementors]] r"
| run_not_callable:
    "truthy (register_implementors w) \<Longrightarrow> \<forall>f. register_implementors w \<noteq> JFun f \<Longrightarrow>
     publish_run H w
       [Read Register_implementors, Read Register_implementors] (Throw TypeError w)"
| run_pending:
    "\<not> truthy (register_implementors w) \<Longrightarrow>
     publish_run H w
       [Read Register_implementors, Write Pending_implementors implementors]
       (Normal (w\<lparr>pending_implementors := implementors\<rparr>))"

text \<open>The calls and the writes among the events of a run.\<close>

fun calls_of :: "event list \<Rightarrow> (nat \<times> jsval list) list" where
  "calls_of [] = []"
| "calls_of (Call f args # es) = (f, args) # calls_of es"
| "calls_of (e # es) = calls_of es"

fun writes_of :: "event list \<Rightarrow> (slot \<times> jsval) list" where
  "writes_of [] = []"
| "writes_of (Write s v # es) = (s, v) # writes_of es"
| "writes_of (e # es) = writes_of es"

fun reads_of :: "event list \<Rightarrow> slot list" where
  "reads_of [] = []"
| "reads_of (Read s # es) = s # reads_of es"
| "reads_of (e # es) = reads_of es"



text \<open>Example pages and hosts.\<close>

definition page :: "jsval \<Rightarrow> jsval \<Rightarrow> unit window" where
  "page reg pend = \<lparr>register_implementors = reg, pending_implementors = pend, others = ()\<rparr>"

definition host_accepts :: "unit host" where
  "host_accepts f args w = Normal w"

definition host_throws :: "unit host" where
  "host_throws f args w = Throw (Thrown (JStr ''boom'')) w"

definition host_hangs :: "unit host" where
  "host_hangs f args w = Diverge"

text \<open>A deterministic host, seen as a relation.\<close>

definition host_rel ::
  "'x host \<Rightarrow> nat \<Rightarrow> jsval list \<Rightarrow> 'x window \<Rightarrow> 'x window completion \<Rightarrow> bool" where
  "host_rel host f args w r = (host f args w = r)"

section \<open>Properties of the registry\<close>

lemma set_property_fresh: "k \<notin> fst ` set ps \<Longrightarrow> set_property ps k v = ps @ [(k, v)]"
  by (induction ps) auto

lemma foldl_set_property_distinct:
  "distinct (map fst (ps @ qs)) \<Longrightarrow>
   foldl (\<lambda>ps (k, v). set_property ps k v) ps qs = ps @ qs"
proof (induction qs arbitrary: ps)
  case Nil
  then show ?case by simp
next
  case (Cons q qs)
  obtain k v where q: "q = (k, v)" by (cases q)
  from Cons.prems have fresh: "k \<notin> fst ` set ps" by (simp add: q)
  from Cons.prems have "distinct (map fst ((ps @ [(k, v)]) @ qs))" by (simp add: q)
  from Cons.IH [OF this] show ?case by (simp add: q set_property_fresh [OF fresh])
qed

lemma statement_keys:
  "map fst implementors_statements = 
    [''arrayvec'', ''ascii'', ''async_std'', ''bigdecimal'', ''bson'', ''chrono'',
     ''clap'', ''colored'', ''connection_string'', ''cookie'', ''datamodel_connector'',
     ''dml'', ''graphql_parser'', ''http'', ''http_types'', ''httpdate'', ''hyper'',
     ''ipnet'', ''log'', ''matchers'', ''mongodb'', ''mysql_async'', ''num_bigint'',
     ''opentelemetry'', ''postgres_types'', ''proc_macro2'', ''quaint'',
     ''query_tests_setup'', ''regex'', ''resolv_conf'', ''serde_json'', ''sha1'',
     ''test_cli'', ''tokio_postgres'', ''toml'', ''tonic'', ''tracing_core'',
     ''tracing_subscriber'', ''trust_dns_proto'', ''url'', ''uuid'']"
  by (simp add: implementors_statements_def)

lemma statement_keys_distinct: "distinct (map fst implementors_statements)"
  unfolding statement_keys by simp

lemma implementors_properties: "properties implementors = implementors_statements"
  using foldl_set_property_distinct [of "[]" implementors_statements] statement_keys_distinct
  by (simp add: implementors_def)

text \<open>Each of the 41 right-hand sides is a non-empty array of well-shaped records.\<close>

lemma entry_arrayvec: "well_formed_entry implementors_arrayvec"
  by (simp add: implementors_arrayvec_def well_formed_entry_def is_record_def record_shape_def)

lemma entry_ascii: "well_formed_entry implementors_ascii"
  by (simp add: implementors_ascii_def well_formed_entry_def is_record_def record_shape_def)

lemma entry_async_std: "well_formed_entry implementors_async_std"
  by (simp add: implementors_async_std_def well_formed_entry_def is_record_def record_shape_def)

lemma entry_bigdecimal: "well_formed_entry implementors_bigdecimal"
  by (simp add: implementors_bigdecimal_def well_formed_entry_def is_record_def record_shape_def)

lemma entry_bson: "well_formed_entry implementors_bson"
  by (simp add: implementors_bson_def well_formed_entry_def is_record_def record_shape_def)

lemma entry_chrono: "well_formed_entry implementors_chrono"
  by (simp add: implementors_chrono_def well_formed_entry_def is_record_def record_shape_def)

lemma entry_clap: "well_formed_entry implementors_clap"
  by (simp add: implementors_clap_def well_formed_entry_def is_record_def record_shape_def)

lemma entry_colored: "well_formed_entry implementors_colored"
  by (simp add: implementors_colored_def well_formed_entry_def is_record_def record_shape_def)

lemma entry_connection_string: "well_formed_entry implementors_connection_string"
  by (simp add: implementors_connection_string_def well_formed_entry_def is_record_def record_shape_def)

lemma entry_cookie: "well_formed_entry implementors_cookie"
  by (simp add: implementors_cookie_def well_formed_entry_def is_record_def record_shape_def)

lemma entry_datamodel_connector: "well_formed_entry implementors_datamodel_connector"
  by (simp add: implementors_datamodel_connector_def well_formed_entry_def is_record_def record_shape_def)

lemma entry_dml: "well_formed_entry implementors_dml"
  by (simp add: implementors_dml_def well_formed_entry_def is_record_def record_shape_def)

lemma entry_graphql_parser: "well_formed_entry implementors_graphql_parser"
  by (simp add: implementors_graphql_parser_def well_formed_entry_def is_record_def record_shape_def)

lemma entry_http: "well_formed_entry implementors_http"
  by (simp add: implementors_http_def well_formed_entry_def is_record_def record_shape_def)

lemma entry_http_types: "well_formed_entry implementors_http_types"
  by (simp add: implementors_http_types_def well_formed_entry_def is_record_def record_shape_def)

lemma entry_httpdate: "well_formed_entry implementors_httpdate"
  by (simp add: implementors_httpdate_def well_formed_entry_def is_record_def record_shape_def)

lemma entry_hyper: "well_formed_entry implementors_hyper"
  by (simp add: implementors_hyper_def well_formed_entry_def is_record_def record_shape_def)

lemma entry_ipnet: "well_formed_entry implementors_ipnet"
  by (simp add: implementors_ipnet_def well_formed_entry_def is_record_def record_shape_def)

lemma entry_log: "well_formed_entry implementors_log"
  by (simp add: implementors_log_def well_formed_entry_def is_record_def record_shape_def)

lemma entry_matchers: "well_formed_entry implementors_matchers"
  by (simp add: implementors_matchers_def well_formed_entry_def is_record_def record_shape_def)

lemma entry_mongodb: "well_formed_entry implementors_mongodb"
  by (simp add: implementors_mongodb_def well_formed_entry_def is_record_def record_shape_def)

lemma entry_mysql_async: "well_formed_entry implementors_mysql_async"
  by (simp add: implementors_mysql_async_def well_formed_entry_def is_record_def record_shape_def)

lemma entry_num_bigint: "well_formed_entry implementors_num_bigint"
  by (simp add: implementors_num_bigint_def well_formed_entry_def is_record_def record_shape_def)

lemma entry_opentelemetry: "well_formed_entry implementors_opentelemetry"
  by (simp add: implementors_opentelemetry_def well_formed_entry_def is_record_def record_shape_def)

lemma entry_postgres_types: "well_formed_entry implementors_postgres_types"
  by (simp add: implementors_postgres_types_def well_formed_entry_def is_record_def record_shape_def)

lemma entry_proc_macro2: "well_formed_entry implementors_proc_macro2"
  by (simp add: implementors_proc_macro2_def well_formed_entry_def is_record_def record_shape_def)

lemma entry_quaint: "well_formed_entry implementors_quaint"
  by (simp add: implementors_quaint_def well_formed_entry_def is_record_def record_shape_def)

lemma entry_query_tests_setup: "well_formed_entry implementors_query_tests_setup"
  by (simp add: implementors_query_tests_setup_def well_formed_entry_def is_record_def record_shape_def)

lemma entry_regex: "well_formed_entry implementors_regex"
  by (simp add: implementors_regex_def well_formed_entry_def is_record_def record_shape_def)

lemma entry_resolv_conf: "well_formed_entry implementors_resolv_conf"
  by (simp add: implementors_resolv_conf_def well_formed_entry_def is_record_def record_shape_def)

lemma entry_serde_json: "well_formed_entry implementors_serde_json"
  by (simp add: implementors_serde_json_def well_formed_entry_def is_record_def record_shape_def)

lemma entry_sha1: "well_formed_entry implementors_sha1"
  by (simp add: implementors_sha1_def well_formed_entry_def is_record_def record_shape_def)

lemma entry_test_cli: "well_formed_entry implementors_test_cli"
  by (simp add: implementors_test_cli_def well_formed_entry_def is_record_def record_shape_def)

lemma entry_tokio_postgres: "well_formed_entry implementors_tokio_postgres"
  by (simp add: implementors_tokio_postgres_def well_formed_entry_def is_record_def record_shape_def)

lemma entry_toml: "well_formed_entry implementors_toml"
  by (simp add: implementors_toml_def well_formed_entry_def is_record_def record_shape_def)

lemma entry_tonic: "well_formed_entry implementors_tonic"
  by (simp add: implementors_tonic_def well_formed_entry_def is_record_def record_shape_def)

lemma entry_tracing_core: "well_formed_entry implementors_tracing_core"
  by (simp add: implementors_tracing_core_def well_formed_entry_def is_record_def record_shape_def)

lemma entry_tracing_subscriber: "well_formed_entry implementors_tracing_subscriber"
  by (simp add: implementors_tracing_subscriber_def well_formed_entry_def is_record_def record_shape_def)

lemma entry_trust_dns_proto: "well_formed_entry implementors_trust_dns_proto"
  by (simp add: implementors_trust_dns_proto_def well_formed_entry_def is_record_def record_shape_def)

lemma entry_url: "well_formed_entry implementors_url"
  by (simp add: implementors_url_def well_formed_entry_def is_record_def record_shape_def)

lemma entry_uuid: "well_formed_entry implementors_uuid"
  by (simp add: implementors_uuid_def well_formed_entry_def is_record_def record_shape_def)

lemmas entry_shapes =
  entry_arrayvec entry_ascii entry_async_std entry_bigdecimal entry_bson entry_chrono
  entry_clap entry_colored entry_connection_string entry_cookie
  entry_datamodel_connector entry_dml entry_graphql_parser entry_http entry_http_types
  entry_httpdate entry_hyper entry_ipnet entry_log entry_matchers entry_mongodb
  entry_mysql_async entry_num_bigint entry_opentelemetry entry_postgres_types
  entry_proc_macro2 entry_quaint entry_query_tests_setup entry_regex entry_resolv_conf
  entry_serde_json entry_sha1 entry_test_cli entry_tokio_postgres entry_toml
  entry_tonic entry_tracing_core entry_tracing_subscriber entry_trust_dns_proto
  entry_url entry_uuid

lemma statements_well_formed:
  "list_all (\<lambda>(k, v). well_formed_entry v) implementors_statements"
  by (simp add: implementors_statements_def entry_shapes)

lemma property_well_formed:
  assumes "(k, v) \<in> set (properties implementors)"
  shows "well_formed_entry v"
  using assms statements_well_formed
  by (auto simp: implementors_properties list_all_iff)

text \<open>
  C7. The keys assigned on lines 2 to 42 are pairwise distinct: no assignment overwrites
  an earlier one, so the object holds the 41 assignments as they were written, one
  property for each key.
\<close>

theorem registry_keys_distinct:
  "distinct (map fst implementors_statements) \<and>
   properties implementors = implementors_statements \<and>
   distinct (map fst (properties implementors)) \<and>
   length (properties implementors) = 41"
  using statement_keys_distinct implementors_properties
  by (simp add: implementors_statements_def)

text \<open>
  C5. Every key of the registry maps to an array that is not empty, and every element of
  that array is an implementor record.
\<close>

theorem registry_complete:
  assumes "(k, v) \<in> set (properties implementors)"
  shows "is_nonempty_array v \<and> (\<forall>r \<in> set (elements v). is_record r)"
  using property_well_formed [OF assms]
  by (simp add: well_formed_entry_def list_all_iff)

theorem registry_complete_witness:
  "(''uuid'', implementors_uuid) \<in> set (properties implementors) \<and>
   is_nonempty_array implementors_uuid \<and>
   list_all is_record (elements implementors_uuid)"
proof -
  have h: "(''uuid'', implementors_uuid) \<in> set (properties implementors)"
    by (simp add: implementors_properties implementors_statements_def)
  from registry_complete [OF h] h show ?thesis by (simp add: list_all_iff)
qed

text \<open>
  C6. In every record of the registry, \<^verbatim>\<open>text\<close> is a non-empty string,
  \<^verbatim>\<open>synthetic\<close> is a boolean, namely \<^verbatim>\<open>false\<close>, and \<^verbatim>\<open>types\<close> is an
  array with at least one entry.
\<close>

theorem registry_record_shape:
  assumes "(k, v) \<in> set (properties implementors)" and "r \<in> set (elements v)"
  shows "is_nonempty_string (get_property (properties r) ''text'') \<and>
         is_boolean (get_property (properties r) ''synthetic'') \<and>
         get_property (properties r) ''synthetic'' = JBool False \<and>
         is_nonempty_array (get_property (properties r) ''types'')"
  using property_well_formed [OF assms(1)] assms(2)
  by (simp add: well_formed_entry_def list_all_iff record_shape_def)

theorem registry_record_shape_witness:
  "(''sha1'', implementors_sha1) \<in> set (properties implementors) \<and>
   hd (elements implementors_sha1) \<in> set (elements implementors_sha1) \<and>
   is_nonempty_string (get_property (properties (hd (elements implementors_sha1))) ''text'') \<and>
   is_boolean (get_property (properties (hd (elements implementors_sha1))) ''synthetic'') \<and>
   get_property (properties (hd (elements implementors_sha1))) ''synthetic'' = JBool False \<and>
   is_nonempty_array (get_property (properties (hd (elements implementors_sha1))) ''types'')"
proof -
  have h1: "(''sha1'', implementors_sha1) \<in> set (properties implementors)"
    by (simp add: implementors_properties implementors_statements_def)
  have h2: "hd (elements implementors_sha1) \<in> set (elements implementors_sha1)"
    by (simp add: implementors_sha1_def)
  from registry_record_shape [OF h1 h2] h1 h2 show ?thesis by blast
qed

section \<open>Properties of the registration step\<close>

lemma publish_branches:
  "publish host w =
     (if truthy (register_implementors w)
      then call_value host (register_implementors w) [implementors]
             ([Read Register_implementors, Read Register_implementors], w)
      else ([Read Register_implementors, Write Pending_implementors implementors],
            Normal (w\<lparr>pending_implementors := implementors\<rparr>)))"
  by (simp add: publish_def get_member_def put_member_def)

lemma publish_function:
  assumes "register_implementors w = JFun f"
  shows "publish host w =
     ([Read Register_implementors, Read Register_implementors, Call f [implementors]],
      host f [implementors] w)"
  using assms by (simp add: publish_branches call_value_def)

lemma publish_falsy:
  assumes "\<not> truthy (register_implementors w)"
  shows "publish host w =
     ([Read Register_implementors, Write Pending_implementors implementors],
      Normal (w\<lparr>pending_implementors := implementors\<rparr>))"
  using assms by (simp add: publish_branches)

lemma publish_not_callable:
  assumes "truthy (register_implementors w)" and "\<forall>f. register_implementors w \<noteq> JFun f"
  shows "publish host w =
     ([Read Register_implementors, Read Register_implementors], Throw TypeError w)"
  using assms by (cases "register_implementors w") (simp_all add: publish_branches call_value_def)

lemma publish_writes:
  "writes_of (fst (publish host w)) =
     (if truthy (register_implementors w) then [] else [(Pending_implementors, implementors)])"
  by (cases "register_implementors w") (simp_all add: publish_branches call_value_def)

lemma publish_calls:
  "calls_of (fst (publish host w)) =
     (case register_implementors w of JFun f \<Rightarrow> [(f, [implementors])] | _ \<Rightarrow> [])"
  by (cases "register_implementors w") (simp_all add: publish_branches call_value_def)

lemma publish_reads: "set (reads_of (fst (publish host w))) = {Register_implementors}"
  by (cases "register_implementors w") (simp_all add: publish_branches call_value_def)

lemma publish_completion:
  "snd (publish host w) =
     (if truthy (register_implementors w)
      then (case register_implementors w of
              JFun f \<Rightarrow> host f [implementors] w
            | _ \<Rightarrow> Throw TypeError w)
      else Normal (w\<lparr>pending_implementors := implementors\<rparr>))"
  by (cases "register_implementors w") (simp_all add: publish_branches call_value_def)

lemma falsy_values:
  "(\<not> truthy v) = (v \<in> {JUndefined, JNull, JBool False, JNum 0, JNaN, JStr []})"
  by (cases v) auto

lemma publish_run_iff: "publish_run (host_rel host) w t r = (publish host w = (t, r))"
proof
  assume "publish_run (host_rel host) w t r"
  then show "publish host w = (t, r)"
    by (cases rule: publish_run.cases)
       (simp_all add: publish_function publish_not_callable publish_falsy host_rel_def)
next
  assume run: "publish host w = (t, r)"
  show "publish_run (host_rel host) w t r"
  proof (cases "truthy (register_implementors w)")
    case False
    with run publish_falsy [OF False, of host] show ?thesis
      by (auto intro: publish_run.run_pending)
  next
    case True
    show ?thesis
    proof (cases "\<exists>f. register_implementors w = JFun f")
      case False
      then have nf: "\<forall>f. register_implementors w \<noteq> JFun f" by simp
      from run publish_not_callable [OF True nf, of host] True nf show ?thesis
        by (auto intro: publish_run.run_not_callable)
    next
      case yes: True
      then obtain f where f: "register_implementors w = JFun f" ..
      from run publish_function [OF f, of host] True f show ?thesis
        by (auto intro: publish_run.run_call simp: host_rel_def)
    qed
  qed
qed

lemma publish_run_trace:
  assumes "publish_run H w t r"
  shows "t = (if truthy (register_implementors w)
              then (case register_implementors w of
                      JFun f \<Rightarrow> [Read Register_implementors, Read Register_implementors,
                                 Call f [implementors]]
                    | _ \<Rightarrow> [Read Register_implementors, Read Register_implementors])
              else [Read Register_implementors, Write Pending_implementors implementors])"
  using assms
  by (cases rule: publish_run.cases) (auto split: jsval.splits)

text \<open>
  C1. When the callback slot holds a function \<open>f\<close>, the script calls \<open>f\<close> exactly once,
  with the registry as the only argument, and writes no slot: the pending slot is as it
  was when \<open>f\<close> is called, and the evaluation ends as the call of \<open>f\<close> ends, with
  nothing done after it. What \<open>f\<close> does to the page is the host's doing.
\<close>

theorem publish_callback_present:
  assumes "register_implementors w = JFun f"
  shows "fst (publish host w) =
           [Read Register_implementors, Read Register_implementors, Call f [implementors]] \<and>
         calls_of (fst (publish host w)) = [(f, [implementors])] \<and>
         writes_of (fst (publish host w)) = [] \<and>
         snd (publish host w) = host f [implementors] w"
  using assms by (simp add: publish_function)

theorem publish_callback_present_witness:
  "register_implementors (page (JFun 0) JNull) = JFun 0 \<and>
   calls_of (fst (publish host_accepts (page (JFun 0) JNull))) = [(0, [implementors])] \<and>
   writes_of (fst (publish host_accepts (page (JFun 0) JNull))) = [] \<and>
   snd (publish host_accepts (page (JFun 0) JNull)) = Normal (page (JFun 0) JNull) \<and>
   pending_implementors (page (JFun 0) JNull) = JNull"
proof -
  have h: "register_implementors (page (JFun 0) JNull) = JFun 0"
    by (simp add: page_def)
  from publish_callback_present [OF h, of host_accepts] h show ?thesis
    by (simp add: host_accepts_def page_def)
qed

text \<open>
  C2, as the code has it. Take any window whose callback slot holds no function. The
  script then calls nothing and leaves the callback slot as it was. When the slot is
  falsy (absent, so \<^verbatim>\<open>undefined\<close>, or \<^verbatim>\<open>null\<close>, \<^verbatim>\<open>false\<close>,
  \<^verbatim>\<open>0\<close>, \<^verbatim>\<open>NaN\<close>, the empty string) the evaluation ends normally and writes
  the registry to the pending slot exactly once, changing nothing else. When the slot
  holds a truthy value that is not a function, the call raises a \<^verbatim>\<open>TypeError\<close>,
  no slot is written and the window stays as it was.
\<close>

theorem publish_callback_absent:
  assumes "\<forall>f. register_implementors w \<noteq> JFun f"
  shows "calls_of (fst (publish host w)) = [] \<and>
         Register_implementors \<notin> fst ` set (writes_of (fst (publish host w))) \<and>
         (\<not> truthy (register_implementors w) \<longrightarrow>
            (\<exists>w'. snd (publish host w) = Normal w' \<and>
                  pending_implementors w' = implementors \<and>
                  register_implementors w' = register_implementors w \<and>
                  others w' = others w) \<and>
            writes_of (fst (publish host w)) = [(Pending_implementors, implementors)]) \<and>
         (truthy (register_implementors w) \<longrightarrow>
            snd (publish host w) = Throw TypeError w \<and>
            writes_of (fst (publish host w)) = [])"
proof (cases "truthy (register_implementors w)")
  case True
  from publish_not_callable [OF True assms, of host] True show ?thesis by simp
next
  case False
  from publish_falsy [OF False, of host] False show ?thesis by simp
qed

theorem publish_callback_absent_witness:
  "snd (publish host_throws (page JUndefined JNull)) = Normal (page JUndefined implementors) \<and>
   writes_of (fst (publish host_throws (page JUndefined JNull))) =
     [(Pending_implementors, implementors)] \<and>
   calls_of (fst (publish host_throws (page JUndefined JNull))) = [] \<and>
   snd (publish host_throws (page (JBool False) JNull)) =
     Normal (page (JBool False) implementors) \<and>
   snd (publish host_throws (page (JStr ''soon'') JNull)) =
     Throw TypeError (page (JStr ''soon'') JNull) \<and>
   writes_of (fst (publish host_throws (page (JStr ''soon'') JNull))) = []"
proof -
  have h1: "\<forall>f. register_implementors (page JUndefined JNull) \<noteq> JFun f"
    by (simp add: page_def)
  have h2: "\<forall>f. register_implementors (page (JBool False) JNull) \<noteq> JFun f"
    by (simp add: page_def)
  have h3: "\<forall>f. register_implementors (page (JStr ''soon'') JNull) \<noteq> JFun f"
    by (simp add: page_def)
  from publish_callback_absent [OF h1, where host = host_throws]
       publish_callback_absent [OF h2, where host = host_throws]
       publish_callback_absent [OF h3, where host = host_throws]
  show ?thesis
    by (auto simp: page_def)
qed

text \<open>
  Without a callback installed the script may still raise and store nothing: with the
  number 1 in the callback slot, which is no function, the evaluation ends in a
  \<^verbatim>\<open>TypeError\<close>, writes no slot and leaves the pending slot as it was.
\<close>

theorem publish_callback_absent_counterexample:
  "snd (publish host_accepts (page (JNum 1) JNull)) = Throw TypeError (page (JNum 1) JNull) \<and>
   writes_of (fst (publish host_accepts (page (JNum 1) JNull))) = [] \<and>
   pending_implementors (page (JNum 1) JNull) = JNull"
  by (simp add: publish_completion publish_writes page_def)

text \<open>
  C3, as the code has it. A run writes at most one of the two slots. The callback slot is
  read and never written, and the pending slot is written, once and with the registry,
  exactly in the runs that take the fallback branch; a run that takes the other branch
  writes no slot. Over all runs the pending slot is the only one written. The script
  changes nothing else: in the fallback branch the window it leaves differs from the
  initial one in the pending slot only, and in the other branch the callee is called on
  the initial window and the evaluation ends as that call ends.
\<close>

theorem publish_frame:
  "writes_of (fst (publish host w)) =
     (if truthy (register_implementors w) then [] else [(Pending_implementors, implementors)]) \<and>
   Register_implementors \<notin> fst ` set (writes_of (fst (publish host w))) \<and>
   set (reads_of (fst (publish host w))) = {Register_implementors} \<and>
   (\<Union>w'. fst ` set (writes_of (fst (publish host (w' :: 'x window))))) =
     {Pending_implementors} \<and>
   (\<not> truthy (register_implementors w) \<longrightarrow>
      (\<exists>w'. snd (publish host w) = Normal w' \<and>
            pending_implementors w' = implementors \<and>
            register_implementors w' = register_implementors w \<and>
            others w' = others w)) \<and>
   (truthy (register_implementors w) \<longrightarrow>
      snd (publish host w) =
        (case register_implementors w of
           JFun f \<Rightarrow> host f [implementors] w
         | _ \<Rightarrow> Throw TypeError w))"
proof -
  have "(\<Union>w'. fst ` set (writes_of (fst (publish host (w' :: 'x window))))) =
          {Pending_implementors}"
  proof
    show "(\<Union>w'. fst ` set (writes_of (fst (publish host (w' :: 'x window))))) \<subseteq>
            {Pending_implementors}"
      by (auto simp: publish_writes split: if_splits)
  next
    have "Pending_implementors \<in>
            fst ` set (writes_of (fst (publish host (w\<lparr>register_implementors := JUndefined\<rparr>))))"
      by (simp add: publish_writes)
    then show "{Pending_implementors} \<subseteq>
            (\<Union>w'. fst ` set (writes_of (fst (publish host (w' :: 'x window)))))"
      by blast
  qed
  then show ?thesis
    by (simp add: publish_writes publish_reads publish_completion)
qed

theorem publish_frame_witness:
  "writes_of (fst (publish host_accepts (page JUndefined JNull))) =
     [(Pending_implementors, implementors)] \<and>
   snd (publish host_accepts (page JUndefined JNull)) = Normal (page JUndefined implementors) \<and>
   writes_of (fst (publish host_accepts (page (JFun 0) JNull))) = [] \<and>
   snd (publish host_accepts (page (JFun 0) JNull)) = Normal (page (JFun 0) JNull)"
  using publish_frame [where host = host_accepts and w = "page JUndefined JNull"]
        publish_frame [where host = host_accepts and w = "page (JFun 0) JNull"]
  by (auto simp: page_def host_accepts_def)

text \<open>
  A run does not always write one of the two slots: with a callback installed the script
  writes neither, and a callback that does nothing leaves the window as it was.
\<close>

theorem publish_frame_counterexample:
  "writes_of (fst (publish host_accepts (page (JFun 0) JNull))) = [] \<and>
   snd (publish host_accepts (page (JFun 0) JNull)) = Normal (page (JFun 0) JNull)"
  by (simp add: publish_writes publish_completion page_def host_accepts_def)

text \<open>
  C4, as the code has it. The script's own steps always end; the evaluation ends normally
  exactly when the callback slot is falsy, or holds a function whose call with the
  registry returns. A truthy value that is not a function raises a
  \<^verbatim>\<open>TypeError\<close>, and a callback that throws or does not return makes the evaluation
  do the same.
\<close>

theorem publish_normal_iff:
  "((\<exists>w'. snd (publish host w) = Normal w') =
      (\<not> truthy (register_implementors w) \<or>
       (\<exists>f w'. register_implementors w = JFun f \<and> host f [implementors] w = Normal w'))) \<and>
   (truthy (register_implementors w) \<longrightarrow> (\<forall>f. register_implementors w \<noteq> JFun f) \<longrightarrow>
      snd (publish host w) = Throw TypeError w) \<and>
   (\<forall>f. register_implementors w = JFun f \<longrightarrow>
      snd (publish host w) = host f [implementors] w)"
  by (cases "register_implementors w") (auto simp: publish_completion)

theorem publish_normal_iff_witness:
  "(\<exists>w'. snd (publish host_accepts (page JUndefined JNull)) = Normal w') \<and>
   (\<exists>w'. snd (publish host_accepts (page (JFun 0) JNull)) = Normal w') \<and>
   snd (publish host_accepts (page (JObj []) JNull)) = Throw TypeError (page (JObj []) JNull)"
  using publish_normal_iff [where host = host_accepts and w = "page JUndefined JNull"]
        publish_normal_iff [where host = host_accepts and w = "page (JFun 0) JNull"]
        publish_normal_iff [where host = host_accepts and w = "page (JObj []) JNull"]
  by (simp add: page_def host_accepts_def)

text \<open>
  The claim that the evaluation cannot fail whatever the callback slot holds is false: a
  slot holding the number 1 raises a \<^verbatim>\<open>TypeError\<close>, a callback that throws makes the
  evaluation throw, and a callback that does not return keeps it from returning.
\<close>

theorem publish_total_counterexample:
  "snd (publish host_accepts (page (JNum 1) JUndefined)) =
     Throw TypeError (page (JNum 1) JUndefined) \<and>
   snd (publish host_throws (page (JFun 0) JUndefined)) =
     Throw (Thrown (JStr ''boom'')) (page (JFun 0) JUndefined) \<and>
   snd (publish host_hangs (page (JFun 0) JUndefined)) = Diverge"
  by (simp add: publish_completion page_def host_throws_def host_hangs_def)



text \<open>
  C9. The branch is decided by the truthiness of the callback slot. With a falsy value
  in it (\<^verbatim>\<open>undefined\<close>, \<^verbatim>\<open>null\<close>, \<^verbatim>\<open>false\<close>, \<^verbatim>\<open>0\<close>,
  \<^verbatim>\<open>NaN\<close> or the empty string) the script stores the registry in the pending slot and
  calls nothing; with a truthy value it writes nothing and calls what the slot holds.
\<close>

theorem publish_branch_by_truthiness:
  "(\<not> truthy (register_implementors w) \<longrightarrow>
      publish host w =
        ([Read Register_implementors, Write Pending_implementors implementors],
         Normal (w\<lparr>pending_implementors := implementors\<rparr>)) \<and>
      calls_of (fst (publish host w)) = []) \<and>
   (truthy (register_implementors w) \<longrightarrow>
      writes_of (fst (publish host w)) = [] \<and>
      publish host w =
        call_value host (register_implementors w) [implementors]
          ([Read Register_implementors, Read Register_implementors], w)) \<and>
   (\<forall>v \<in> {JNull, JBool False, JNum 0, JStr []}.
      publish host (w\<lparr>register_implementors := v\<rparr>) =
        ([Read Register_implementors, Write Pending_implementors implementors],
         Normal (w\<lparr>register_implementors := v, pending_implementors := implementors\<rparr>))) \<and>
   (\<not> truthy v) = (v \<in> {JUndefined, JNull, JBool False, JNum 0, JNaN, JStr []})"
proof (intro conjI impI ballI)
  assume falsy: "\<not> truthy (register_implementors w)"
  show "publish host w =
        ([Read Register_implementors, Write Pending_implementors implementors],
         Normal (w\<lparr>pending_implementors := implementors\<rparr>))"
    by (rule publish_falsy [OF falsy])
  show "calls_of (fst (publish host w)) = []"
    by (simp add: publish_falsy [OF falsy])
next
  assume "truthy (register_implementors w)"
  then show "writes_of (fst (publish host w)) = []"
    by (simp add: publish_writes)
next
  assume "truthy (register_implementors w)"
  then show "publish host w =
        call_value host (register_implementors w) [implementors]
          ([Read Register_implementors, Read Register_implementors], w)"
    by (simp add: publish_branches)
next
  fix u assume "u \<in> {JNull, JBool False, JNum 0, JStr []}"
  then have "\<not> truthy (register_implementors (w\<lparr>register_implementors := u\<rparr>))" by auto
  from publish_falsy [OF this]
  show "publish host (w\<lparr>register_implementors := u\<rparr>) =
        ([Read Register_implementors, Write Pending_implementors implementors],
         Normal (w\<lparr>register_implementors := u, pending_implementors := implementors\<rparr>))"
    by simp
next
  show "(\<not> truthy v) = (v \<in> {JUndefined, JNull, JBool False, JNum 0, JNaN, JStr []})"
    by (rule falsy_values)
qed

theorem publish_branch_by_truthiness_witness:
  "publish host_accepts (page JNull JUndefined) =
     ([Read Register_implementors, Write Pending_implementors implementors],
      Normal (page JNull implementors)) \<and>
   publish host_accepts (page (JStr []) JUndefined) =
     ([Read Register_implementors, Write Pending_implementors implementors],
      Normal (page (JStr []) implementors)) \<and>
   publish host_accepts (page (JFun 7) JUndefined) =
     ([Read Register_implementors, Read Register_implementors, Call 7 [implementors]],
      Normal (page (JFun 7) JUndefined))"
  using publish_branch_by_truthiness [where w = "page JNull JUndefined" and host = host_accepts]
        publish_branch_by_truthiness [where w = "page (JStr []) JUndefined" and host = host_accepts]
        publish_branch_by_truthiness [where w = "page (JFun 7) JUndefined" and host = host_accepts]
  by (simp add: page_def host_accepts_def call_value_def)

text \<open>
  C10. The script adds no choice of its own. Two runs from windows with the same
  callback slot perform the same events, so the same calls with the same argument; two
  runs from the same window end alike whenever the callee, called on that window, can end
  in one way only. With a host given as a function, equal windows give equal results.
\<close>

theorem publish_deterministic:
  assumes run1: "publish_run H w1 t1 r1" and run2: "publish_run H w2 t2 r2"
    and reg: "register_implementors w1 = register_implementors w2"
  shows "t1 = t2 \<and> calls_of t1 = calls_of t2 \<and>
         (pending_implementors w1 = pending_implementors w2 \<longrightarrow> others w1 = others w2 \<longrightarrow>
          (\<forall>f args r r'. H f args w1 r \<longrightarrow> H f args w1 r' \<longrightarrow> r = r') \<longrightarrow>
            r1 = r2 \<and> publish host w1 = publish host w2)"
proof (intro conjI impI)
  from publish_run_trace [OF run1] publish_run_trace [OF run2] reg
  show eq: "t1 = t2" by simp
  then show "calls_of t1 = calls_of t2" by simp
next
  assume pend: "pending_implementors w1 = pending_implementors w2"
    and oth: "others w1 = others w2"
    and det: "\<forall>f args r r'. H f args w1 r \<longrightarrow> H f args w1 r' \<longrightarrow> r = r'"
  from reg pend oth have same: "w1 = w2" by simp
  from run1 show "r1 = r2"
  proof (cases rule: publish_run.cases)
    case (run_call f)
    from run2 run_call same det show ?thesis
      by (cases rule: publish_run.cases) auto
  next
    case run_not_callable
    from run2 run_not_callable same show ?thesis
      by (cases rule: publish_run.cases) auto
  next
    case run_pending
    from run2 run_pending same show ?thesis
      by (cases rule: publish_run.cases) auto
  qed
  from same show "publish host w1 = publish host w2" by simp
qed

theorem publish_deterministic_witness:
  "publish_run (host_rel host_accepts) (page (JFun 0) JNull)
     [Read Register_implementors, Read Register_implementors, Call 0 [implementors]]
     (Normal (page (JFun 0) JNull)) \<and>
   \<not> publish_run (host_rel host_accepts) (page (JFun 0) JNull)
     [Read Register_implementors, Read Register_implementors, Call 0 [implementors]]
     Diverge"
proof -
  let ?p = "page (JFun 0) JNull"
  let ?t = "[Read Register_implementors, Read Register_implementors, Call 0 [implementors]]"
  have run: "publish_run (host_rel host_accepts) ?p ?t (Normal ?p)"
    by (rule publish_run.run_call) (simp_all add: page_def host_rel_def host_accepts_def)
  have det: "\<forall>f args r r'. host_rel host_accepts f args ?p r \<longrightarrow>
      host_rel host_accepts f args ?p r' \<longrightarrow> r = r'"
    by (simp add: host_rel_def)
  have "\<not> publish_run (host_rel host_accepts) ?p ?t Diverge"
  proof
    assume other: "publish_run (host_rel host_accepts) ?p ?t Diverge"
    from publish_deterministic [OF run other refl, where host = host_accepts] det
    show False by simp
  qed
  with run show ?thesis by simp
qed

end
